theory Spec2Isabelle
  imports Complex_Main
begin

section \<open>Data model of \<^verbatim>\<open>src/src/monte_carlo_housing.py\<close>\<close>

text \<open>
  Numbers are modelled as exact reals: the Python code computes on IEEE doubles, so
  every equation below is an equation of the exact arithmetic the doubles approximate.
  Trial counts and horizons are \<open>nat\<close> (the spec demands positive integers; Python's
  \<open>range\<close> of a negative number is empty and \<open>np.zeros\<close> of one raises).
\<close>

record HousingScenarioParameters =
  scenario_name :: string
  home_price_min :: real
  home_price_max :: real
  down_payment_pct :: real
  interest_rate_mean :: real
  interest_rate_std :: real
  property_tax_rate :: real
  hurricane_insurance_annual :: real
  hoa_monthly :: real
  maintenance_annual_pct :: real
  appreciation_mean :: real
  appreciation_std :: real
  closing_costs_pct :: real

record region_adjustment =
  price_multiplier :: real
  insurance_multiplier :: real

text \<open>The household is a row of a pandas data frame; only the keys the simulator reads.\<close>

record household =
  household_id :: string
  annual_income :: real
  savings :: real
  credit_score :: real
  current_monthly_rent :: real
  debt_to_income_ratio :: real
  region :: string

text \<open>
  The fields \<open>__init__\<close> stores on \<open>self\<close>. The seed is not stored: it is handed to
  \<open>np.random.seed\<close>, which resets the process-wide generator.
\<close>

record simulator =
  income_growth :: real
  insurance_increase :: real
  affordability_threshold :: real
  appreciation_rate :: "real option"
  interest_rate :: "real option"

definition default_simulator :: simulator where
  "default_simulator =
     \<lparr>income_growth = 4/100, insurance_increase = 8/100, affordability_threshold = 1/2,
      appreciation_rate = None, interest_rate = None\<rparr>"

subsection \<open>Scenario catalog and region adjustments\<close>

definition keep_renting :: HousingScenarioParameters where
  "keep_renting =
     \<lparr>scenario_name = ''Keep Renting'', home_price_min = 0, home_price_max = 0,
      down_payment_pct = 0, interest_rate_mean = 0, interest_rate_std = 0,
      property_tax_rate = 0, hurricane_insurance_annual = 0, hoa_monthly = 0,
      maintenance_annual_pct = 0, appreciation_mean = 0, appreciation_std = 0,
      closing_costs_pct = 0\<rparr>"

definition buy_starter :: HousingScenarioParameters where
  "buy_starter =
     \<lparr>scenario_name = ''Buy Starter Home'', home_price_min = 200000, home_price_max = 300000,
      down_payment_pct = 5/100, interest_rate_mean = 65/1000, interest_rate_std = 1/100,
      property_tax_rate = 9/1000, hurricane_insurance_annual = 3500, hoa_monthly = 150,
      maintenance_annual_pct = 15/1000, appreciation_mean = 4/100, appreciation_std = 8/100,
      closing_costs_pct = 3/100\<rparr>"

definition buy_standard :: HousingScenarioParameters where
  "buy_standard =
     \<lparr>scenario_name = ''Buy Standard Home'', home_price_min = 300000, home_price_max = 500000,
      down_payment_pct = 10/100, interest_rate_mean = 625/10000, interest_rate_std = 1/100,
      property_tax_rate = 9/1000, hurricane_insurance_annual = 5500, hoa_monthly = 250,
      maintenance_annual_pct = 15/1000, appreciation_mean = 45/1000, appreciation_std = 10/100,
      closing_costs_pct = 3/100\<rparr>"

definition buy_premium :: HousingScenarioParameters where
  "buy_premium =
     \<lparr>scenario_name = ''Buy Premium Home'', home_price_min = 500000, home_price_max = 800000,
      down_payment_pct = 20/100, interest_rate_mean = 6/100, interest_rate_std = 8/1000,
      property_tax_rate = 9/1000, hurricane_insurance_annual = 8500, hoa_monthly = 400,
      maintenance_annual_pct = 2/100, appreciation_mean = 5/100, appreciation_std = 12/100,
      closing_costs_pct = 3/100\<rparr>"

text \<open>\<open>self.scenarios\<close>: a dict, kept as an association list in insertion order.\<close>

definition scenarios :: "(string \<times> HousingScenarioParameters) list" where
  "scenarios =
     [(''Keep Renting'', keep_renting), (''Buy Starter Home'', buy_starter),
      (''Buy Standard Home'', buy_standard), (''Buy Premium Home'', buy_premium)]"

definition region_adjustments :: "(string \<times> region_adjustment) list" where
  "region_adjustments =
     [(''Miami-Dade'', \<lparr>price_multiplier = 135/100, insurance_multiplier = 140/100\<rparr>),
      (''Tampa Bay'', \<lparr>price_multiplier = 110/100, insurance_multiplier = 120/100\<rparr>),
      (''Orlando'', \<lparr>price_multiplier = 105/100, insurance_multiplier = 115/100\<rparr>),
      (''Jacksonville'', \<lparr>price_multiplier = 95/100, insurance_multiplier = 110/100\<rparr>),
      (''Southwest FL'', \<lparr>price_multiplier = 120/100, insurance_multiplier = 135/100\<rparr>),
      (''Panhandle'', \<lparr>price_multiplier = 85/100, insurance_multiplier = 125/100\<rparr>)]"

text \<open>\<open>self.region_adjustments.get(region, {1.0, 1.0})\<close>\<close>

definition region_adj_of :: "string \<Rightarrow> region_adjustment" where
  "region_adj_of r =
     (case map_of region_adjustments r of
        None \<Rightarrow> \<lparr>price_multiplier = 1, insurance_multiplier = 1\<rparr>
      | Some a \<Rightarrow> a)"

subsection \<open>The random generator\<close>

text \<open>
  \<open>np.random\<close> is a library, not code of this repository: it is a parameter of the
  model. A generator has a state of some type \<open>'s\<close>; each sampling call reads the state
  and returns the drawn value with the successor state. \<open>np_seed\<close> is
  \<open>np.random.seed\<close>: the state a seed stands for.
\<close>

record 's generator =
  np_seed :: "int \<Rightarrow> 's"
  np_uniform :: "real \<Rightarrow> real \<Rightarrow> 's \<Rightarrow> real \<times> 's"
  np_normal :: "real \<Rightarrow> real \<Rightarrow> 's \<Rightarrow> real \<times> 's"
  np_triangular :: "real \<Rightarrow> real \<Rightarrow> real \<Rightarrow> 's \<Rightarrow> real \<times> 's"
  np_random :: "'s \<Rightarrow> real \<times> 's"


text \<open>
  A concrete generator for running the model: the state is a tape of raw draws, read
  cyclically. A raw draw is scaled into the requested range: forced into the unit interval
  first where the distribution is bounded, and kept within \<open>zmax\<close> standard deviations
  of the mean for a normal draw.
\<close>

definition tape_next :: "real list \<Rightarrow> real \<times> real list" where
  "tape_next s = (case s of [] \<Rightarrow> (0, []) | x # xs \<Rightarrow> (x, xs @ [x]))"

definition unit_of :: "real \<Rightarrow> real" where
  "unit_of x = (if 0 \<le> x \<and> x < 1 then x else 0)"

definition bounded_by :: "real \<Rightarrow> real \<Rightarrow> real" where
  "bounded_by zmax x = max (- zmax) (min zmax x)"

definition tape_generator :: "real \<Rightarrow> (int \<Rightarrow> real list) \<Rightarrow> real list generator" where
  "tape_generator zmax tape_of_seed =
     \<lparr>np_seed = tape_of_seed,
      np_uniform = (\<lambda>lo hi s. (lo + (hi - lo) * unit_of (fst (tape_next s)), snd (tape_next s))),
      np_normal = (\<lambda>mu sd s. (mu + sd * bounded_by zmax (fst (tape_next s)), snd (tape_next s))),
      np_triangular = (\<lambda>l m r s. (l + (r - l) * unit_of (fst (tape_next s)), snd (tape_next s))),
      np_random = (\<lambda>s. (unit_of (fst (tape_next s)), snd (tape_next s)))\<rparr>"

text \<open>Inputs for running the model: a household and a generator.\<close>

definition example_household :: household where
  "example_household =
     \<lparr>household_id = ''FL-0001'', annual_income = 60000, savings = 5000, credit_score = 700,
      current_monthly_rent = 1500, debt_to_income_ratio = 3/10, region = ''Orlando''\<rparr>"

definition example_generator :: "real list generator" where
  "example_generator = tape_generator 8 (\<lambda>seed. [0, 1/2, 0, -5])"

subsection \<open>numpy helpers\<close>

text \<open>\<open>np.clip(x, lo, hi)\<close> is \<open>minimum(maximum(x, lo), hi)\<close>.\<close>

definition np_clip :: "real \<Rightarrow> real \<Rightarrow> real \<Rightarrow> real" where
  "np_clip x lo hi = min (max x lo) hi"

text \<open>
  The test \<open>(num / den) <= t\<close> on numpy doubles. The household comes from a data frame
  row, so the operands are \<open>np.float64\<close>: a zero divisor raises nothing, the quotient is
  \<open>+inf\<close>, \<open>-inf\<close> or \<open>nan\<close> by the sign of \<open>num\<close>, and only \<open>-inf\<close> passes the test.
  (A real zero has no sign; the divisor \<open>-0.0\<close> of the doubles, which swaps the two
  infinities, is not modelled.)
\<close>

definition ratio_le :: "real \<Rightarrow> real \<Rightarrow> real \<Rightarrow> bool" where
  "ratio_le num den t = (if den = 0 then num < 0 else num / den \<le> t)"

text \<open>
  Statistics of an array. An empty array has none (numpy answers \<open>nan\<close> with a warning):
  \<open>None\<close>. The percentile is numpy's default, linear interpolation between the two
  nearest ranks of the sorted array.
\<close>

definition np_mean :: "real list \<Rightarrow> real option" where
  "np_mean xs = (if xs = [] then None else Some (sum_list xs / real (length xs)))"

definition np_median :: "real list \<Rightarrow> real option" where
  "np_median xs =
     (let ys = sort xs; n = length ys
      in if n = 0 then None
         else if n mod 2 = 1 then Some (ys ! (n div 2))
         else Some ((ys ! (n div 2 - 1) + ys ! (n div 2)) / 2))"

definition np_percentile :: "real list \<Rightarrow> real \<Rightarrow> real option" where
  "np_percentile xs q =
     (let ys = sort xs; n = length ys
      in if n = 0 then None
         else let pos = q / 100 * real (n - 1);
                  lo = nat \<lfloor>pos\<rfloor>;
                  hi = min (lo + 1) (n - 1)
              in Some (ys ! lo + (ys ! hi - ys ! lo) * (pos - real lo)))"

text \<open>\<open>count / num_simulations\<close> on numpy scalars: \<open>nan\<close> for zero trials.\<close>

definition fraction :: "nat \<Rightarrow> nat \<Rightarrow> real option" where
  "fraction k n = (if n = 0 then None else Some (real k / real n))"

text \<open>The four-key summary dicts \<open>{mean, median, percentile_5, percentile_95}\<close>.\<close>

record summary =
  mean :: "real option"
  median :: "real option"
  percentile_5 :: "real option"
  percentile_95 :: "real option"

definition summary_of :: "real list \<Rightarrow> summary" where
  "summary_of xs =
     \<lparr>mean = np_mean xs, median = np_median xs,
      percentile_5 = np_percentile xs 5, percentile_95 = np_percentile xs 95\<rparr>"

section \<open>Renting simulator (\<open>simulate_renting\<close>)\<close>

record rent_state =
  rent :: real
  total_cost :: real
  months_affordable :: nat
  income :: real

text \<open>
  Lines 186-191, the month loop of an unaffordable year: it counts and pays months while
  the ratio holds and breaks at the first month it does not.
\<close>

fun rent_month_loop :: "nat \<Rightarrow> real \<Rightarrow> real \<Rightarrow> nat \<times> real \<Rightarrow> nat \<times> real" where
  "rent_month_loop 0 r monthly_income acc = acc"
| "rent_month_loop (Suc k) r monthly_income (affordable_months_this_year, tc) =
     (if ratio_le r monthly_income (35/100)
      then rent_month_loop k r monthly_income (affordable_months_this_year + 1, tc + r)
      else (affordable_months_this_year, tc))"

text \<open>
  Lines 168-193, the body of the year loop. The flag of the result says whether the loop
  goes on to the next year (the affordable branch) or breaks (line 193).
\<close>

definition renting_year ::
  "'s generator \<Rightarrow> simulator \<Rightarrow> rent_state \<Rightarrow> 's \<Rightarrow> bool \<times> rent_state \<times> 's" where
  "renting_year g cfg st s =
     (let rent_increase = fst (np_triangular g (3/100) (5/100) (10/100) s);
          s1 = snd (np_triangular g (3/100) (5/100) (10/100) s);
          r = rent st * (1 + rent_increase);
          income_change = fst (np_normal g (income_growth cfg) (8/100) s1);
          s2 = snd (np_normal g (income_growth cfg) (8/100) s1);
          inc = income st * (1 + income_change);
          monthly_income = inc / 12;
          is_affordable = ratio_le r monthly_income (35/100)
      in if is_affordable
         then (True,
               st\<lparr>rent := r, income := inc,
                  months_affordable := months_affordable st + 12,
                  total_cost := total_cost st + r * 12\<rparr>, s2)
         else (let res = rent_month_loop 12 r monthly_income (0, total_cost st)
               in (False,
                   st\<lparr>rent := r, income := inc,
                      months_affordable := months_affordable st + fst res,
                      total_cost := snd res\<rparr>, s2)))"

text \<open>Line 167, the year loop; the nat counts the years still to run.\<close>

fun renting_years ::
  "'s generator \<Rightarrow> simulator \<Rightarrow> nat \<Rightarrow> rent_state \<Rightarrow> 's \<Rightarrow> rent_state \<times> 's" where
  "renting_years g cfg 0 st s = (st, s)"
| "renting_years g cfg (Suc k) st s =
     (if fst (renting_year g cfg st s)
      then renting_years g cfg k (fst (snd (renting_year g cfg st s)))
             (snd (snd (renting_year g cfg st s)))
      else snd (renting_year g cfg st s))"

text \<open>Lines 162-197: one trial, from the household's rent and income.\<close>

definition renting_trial ::
  "'s generator \<Rightarrow> simulator \<Rightarrow> household \<Rightarrow> nat \<Rightarrow> 's \<Rightarrow> rent_state \<times> 's" where
  "renting_trial g cfg h time_horizon_years s =
     renting_years g cfg time_horizon_years
       \<lparr>rent = current_monthly_rent h, total_cost = 0, months_affordable = 0,
        income = annual_income h\<rparr> s"

text \<open>Line 161: the trials run one after the other on the same generator.\<close>

fun renting_trials ::
  "'s generator \<Rightarrow> simulator \<Rightarrow> household \<Rightarrow> nat \<Rightarrow> nat \<Rightarrow> 's \<Rightarrow> rent_state list \<times> 's" where
  "renting_trials g cfg h time_horizon_years 0 s = ([], s)"
| "renting_trials g cfg h time_horizon_years (Suc n) s =
     (let t = renting_trial g cfg h time_horizon_years s;
          rest = renting_trials g cfg h time_horizon_years n (snd t)
      in (fst t # fst rest, snd rest))"

text \<open>
  The result dict. Renting and buying results have different keys; one record holds
  both, a key the dict lacks being \<open>None\<close>. \<open>initial_monthly_cost\<close> is a number for
  renting and a \<open>{mean, median}\<close> dict for buying.
\<close>

datatype monthly_cost_entry = Scalar real | MeanMedian "real option" "real option"

record result_record =
  res_household_id :: string
  res_scenario :: string
  simulations :: nat
  res_time_horizon_years :: nat
  initial_monthly_cost :: monthly_cost_entry
  final_monthly_cost :: summary
  total_cost_paid :: summary
  equity_built :: summary
  probability_affordable :: "real option"
  probability_unaffordable :: "real option option"
  probability_default :: "real option option"
  probability_negative_equity :: "real option option"
  mean_affordable_months :: "real option"

text \<open>Lines 200-227.\<close>

definition renting_results ::
  "household \<Rightarrow> nat \<Rightarrow> nat \<Rightarrow> rent_state list \<Rightarrow> result_record" where
  "renting_results h num_simulations time_horizon_years ts =
     (let final_rent = map rent ts;
          total_paid = map total_cost ts;
          affordability_months = map months_affordable ts
      in \<lparr>res_household_id = household_id h,
          res_scenario = ''Keep Renting'',
          simulations = num_simulations,
          res_time_horizon_years = time_horizon_years,
          initial_monthly_cost = Scalar (current_monthly_rent h),
          final_monthly_cost = summary_of final_rent,
          total_cost_paid = summary_of total_paid,
          equity_built =
            \<lparr>mean = Some 0, median = Some 0, percentile_5 = Some 0, percentile_95 = Some 0\<rparr>,
          probability_affordable =
            fraction (length (filter (\<lambda>m. m = time_horizon_years * 12) affordability_months))
              num_simulations,
          probability_unaffordable =
            Some (fraction (length (filter (\<lambda>m. m < time_horizon_years * 12) affordability_months))
              num_simulations),
          probability_default = None,
          probability_negative_equity = None,
          mean_affordable_months = np_mean (map real affordability_months)\<rparr>)"

definition simulate_renting ::
  "'s generator \<Rightarrow> simulator \<Rightarrow> household \<Rightarrow> nat \<Rightarrow> nat \<Rightarrow> 's \<Rightarrow> result_record \<times> 's" where
  "simulate_renting g cfg h num_simulations time_horizon_years s =
     (let run = renting_trials g cfg h time_horizon_years num_simulations s
      in (renting_results h num_simulations time_horizon_years (fst run), snd run))"

section \<open>Buying simulator (\<open>simulate_buying\<close>)\<close>

text \<open>
  Lines 295-300 (and again 542-547 in the timeline): the level payment of a 30-year
  mortgage, with the linear fallback for a monthly rate that is not positive.
\<close>

definition monthly_mortgage_of :: "real \<Rightarrow> real \<Rightarrow> real" where
  "monthly_mortgage_of loan_amount monthly_rate =
     (let num_payments = 30 * 12 :: nat
      in if monthly_rate > 0
         then loan_amount * (monthly_rate * (1 + monthly_rate) ^ num_payments)
                / ((1 + monthly_rate) ^ num_payments - 1)
         else loan_amount / real num_payments)"

text \<open>
  Lines 290-292 (and 537-539): the drawn mortgage rate, shifted by the credit score and
  clipped. The result is the clipped rate and the generator state after the draw.
\<close>

definition draw_interest_rate ::
  "'s generator \<Rightarrow> HousingScenarioParameters \<Rightarrow> household \<Rightarrow> 's \<Rightarrow> real \<times> 's" where
  "draw_interest_rate g p h s =
     (let credit_adjustment = (750 - credit_score h) * (1/10000);
          drawn = np_normal g (interest_rate_mean p + credit_adjustment) (interest_rate_std p) s
      in (np_clip (fst drawn) (3/100) (10/100), snd drawn))"

text \<open>The variables of one buying trial that the year and month loops update.\<close>

record buy_state =
  current_home_value :: real
  current_loan_balance :: real
  income_b :: real
  total_costs :: real
  months_affordable_b :: nat
  monthly_insurance :: real
  total_monthly :: real
  default_flag :: bool

text \<open>
  Lines 345-357, the month loop of one year. \<open>tm\<close> and \<open>monthly_income\<close> are fixed for
  the year; an affordable month pays and amortises, an unaffordable one draws for default
  and breaks when the draw is below 0.3.
\<close>

fun buy_month_loop ::
  "'s generator \<Rightarrow> simulator \<Rightarrow> nat \<Rightarrow> real \<Rightarrow> real \<Rightarrow> real \<Rightarrow> real \<Rightarrow> buy_state \<Rightarrow> 's
   \<Rightarrow> buy_state \<times> 's" where
  "buy_month_loop g cfg 0 monthly_mortgage rate tm monthly_income st s = (st, s)"
| "buy_month_loop g cfg (Suc k) monthly_mortgage rate tm monthly_income st s =
     (if ratio_le tm monthly_income (affordability_threshold cfg)
      then (let interest_payment = current_loan_balance st * (rate / 12);
                principal_payment = monthly_mortgage - interest_payment
            in buy_month_loop g cfg k monthly_mortgage rate tm monthly_income
                 (st\<lparr>months_affordable_b := months_affordable_b st + 1,
                     total_costs := total_costs st + tm,
                     current_loan_balance := current_loan_balance st - principal_payment\<rparr>) s)
      else (if fst (np_random g s) < 3/10
            then (st\<lparr>default_flag := True\<rparr>, snd (np_random g s))
            else buy_month_loop g cfg k monthly_mortgage rate tm monthly_income st
                   (snd (np_random g s))))"

text \<open>
  Lines 318-357, the body of the year loop: the year's draws, the recomputed monthly
  cost and the twelve months.
\<close>

definition buy_year ::
  "'s generator \<Rightarrow> simulator \<Rightarrow> HousingScenarioParameters \<Rightarrow> real \<Rightarrow> real \<Rightarrow> buy_state \<Rightarrow> 's
   \<Rightarrow> buy_state \<times> 's" where
  "buy_year g cfg p monthly_mortgage rate st s =
     (let income_change = fst (np_normal g (income_growth cfg) (8/100) s);
          s1 = snd (np_normal g (income_growth cfg) (8/100) s);
          inc = income_b st * (1 + income_change);
          appreciation = fst (np_normal g (appreciation_mean p) (appreciation_std p) s1);
          s2 = snd (np_normal g (appreciation_mean p) (appreciation_std p) s1);
          home_value = current_home_value st * (1 + appreciation);
          insurance_mode = np_clip (insurance_increase cfg) (3/100) (12/100);
          insurance_incr = fst (np_triangular g (3/100) insurance_mode (12/100) s2);
          s3 = snd (np_triangular g (3/100) insurance_mode (12/100) s2);
          insurance = monthly_insurance st * (1 + insurance_incr);
          monthly_property_tax = (home_value * property_tax_rate p) / 12;
          monthly_maintenance =
            (home_value * maintenance_annual_pct p) / 12 * fst (np_uniform g (8/10) (15/10) s3);
          s4 = snd (np_uniform g (8/10) (15/10) s3);
          tm = monthly_mortgage + monthly_property_tax + insurance + hoa_monthly p
               + monthly_maintenance;
          monthly_income = inc / 12
      in buy_month_loop g cfg 12 monthly_mortgage rate tm monthly_income
           (st\<lparr>income_b := inc, current_home_value := home_value,
               monthly_insurance := insurance, total_monthly := tm\<rparr>) s4)"

text \<open>
  Lines 317 and 359-360, the year loop: it breaks after a year that ended in default.
  The nat counts the years still to run.
\<close>

fun buy_year_loop ::
  "'s generator \<Rightarrow> simulator \<Rightarrow> HousingScenarioParameters \<Rightarrow> nat \<Rightarrow> real \<Rightarrow> real \<Rightarrow> buy_state
   \<Rightarrow> 's \<Rightarrow> buy_state \<times> 's" where
  "buy_year_loop g cfg p 0 monthly_mortgage rate st s = (st, s)"
| "buy_year_loop g cfg p (Suc k) monthly_mortgage rate st s =
     (if default_flag (fst (buy_year g cfg p monthly_mortgage rate st s))
      then buy_year g cfg p monthly_mortgage rate st s
      else buy_year_loop g cfg p k monthly_mortgage rate
             (fst (buy_year g cfg p monthly_mortgage rate st s))
             (snd (buy_year g cfg p monthly_mortgage rate st s)))"

text \<open>One cell of each of the five result arrays (lines 261-265).\<close>

record trial_outcome =
  final_equity :: real
  monthly_costs :: real
  total_paid :: real
  default_occurred :: bool
  months_solvent :: nat

text \<open>Lines 269-274: the drawn, region-scaled price and the entry costs it implies.\<close>

record entry =
  home_price :: real
  down_payment :: real
  closing_costs :: real

definition draw_entry ::
  "'s generator \<Rightarrow> HousingScenarioParameters \<Rightarrow> region_adjustment \<Rightarrow> 's \<Rightarrow> entry \<times> 's" where
  "draw_entry g p adj s =
     (let price = fst (np_uniform g (home_price_min p) (home_price_max p) s)
                  * price_multiplier adj
      in (\<lparr>home_price = price, down_payment = price * down_payment_pct p,
           closing_costs = price * closing_costs_pct p\<rparr>,
          snd (np_uniform g (home_price_min p) (home_price_max p) s)))"

text \<open>Lines 277-284: the entry gate and what a failed entry records.\<close>

definition failed_entry :: "household \<Rightarrow> entry \<Rightarrow> bool" where
  "failed_entry h e \<longleftrightarrow> savings h < down_payment e + closing_costs e"

definition failed_entry_outcome :: "household \<Rightarrow> entry \<Rightarrow> trial_outcome" where
  "failed_entry_outcome h e =
     \<lparr>final_equity = (if savings h \<ge> closing_costs e then - closing_costs e else - savings h),
      monthly_costs = 0,
      total_paid = min (savings h) (closing_costs e),
      default_occurred = True,
      months_solvent = 0\<rparr>"

text \<open>
  Lines 286-360 for a trial that passed the gate: the mortgage, the initial monthly
  costs and the year loop. The result is the loop's final state.
\<close>

definition buying_path ::
  "'s generator \<Rightarrow> simulator \<Rightarrow> HousingScenarioParameters \<Rightarrow> region_adjustment \<Rightarrow> household
   \<Rightarrow> nat \<Rightarrow> entry \<Rightarrow> 's \<Rightarrow> buy_state \<times> 's" where
  "buying_path g cfg p adj h time_horizon_years e s =
     (let loan_amount = home_price e - down_payment e;
          rate = fst (draw_interest_rate g p h s);
          s1 = snd (draw_interest_rate g p h s);
          monthly_rate = rate / 12;
          monthly_mortgage = monthly_mortgage_of loan_amount monthly_rate;
          monthly_property_tax = (home_price e * property_tax_rate p) / 12;
          insurance = (hurricane_insurance_annual p * insurance_multiplier adj) / 12;
          monthly_maintenance = (home_price e * maintenance_annual_pct p) / 12;
          tm = monthly_mortgage + monthly_property_tax + insurance + hoa_monthly p
               + monthly_maintenance
      in buy_year_loop g cfg p time_horizon_years monthly_mortgage rate
           \<lparr>current_home_value = home_price e, current_loan_balance = loan_amount,
            income_b = annual_income h, total_costs = down_payment e + closing_costs e,
            months_affordable_b = 0, monthly_insurance = insurance, total_monthly = tm,
            default_flag = False\<rparr> s1)"

text \<open>Lines 362-371: the terminal accounting.\<close>

definition path_outcome :: "entry \<Rightarrow> buy_state \<Rightarrow> trial_outcome" where
  "path_outcome e st =
     \<lparr>final_equity =
        (if default_flag st
         then - (down_payment e + closing_costs e + total_costs st * (2/10))
         else current_home_value st - max 0 (current_loan_balance st)),
      monthly_costs = total_monthly st,
      total_paid = total_costs st,
      default_occurred = default_flag st,
      months_solvent = months_affordable_b st\<rparr>"

text \<open>Lines 268-371: one trial.\<close>

definition buying_trial ::
  "'s generator \<Rightarrow> simulator \<Rightarrow> HousingScenarioParameters \<Rightarrow> region_adjustment \<Rightarrow> household
   \<Rightarrow> nat \<Rightarrow> 's \<Rightarrow> trial_outcome \<times> 's" where
  "buying_trial g cfg p adj h time_horizon_years s =
     (let drawn = draw_entry g p adj s
      in if failed_entry h (fst drawn)
         then (failed_entry_outcome h (fst drawn), snd drawn)
         else (let run = buying_path g cfg p adj h time_horizon_years (fst drawn) (snd drawn)
               in (path_outcome (fst drawn) (fst run), snd run)))"

fun buying_trials ::
  "'s generator \<Rightarrow> simulator \<Rightarrow> HousingScenarioParameters \<Rightarrow> region_adjustment \<Rightarrow> household
   \<Rightarrow> nat \<Rightarrow> nat \<Rightarrow> 's \<Rightarrow> trial_outcome list \<times> 's" where
  "buying_trials g cfg p adj h time_horizon_years 0 s = ([], s)"
| "buying_trials g cfg p adj h time_horizon_years (Suc n) s =
     (let t = buying_trial g cfg p adj h time_horizon_years s;
          rest = buying_trials g cfg p adj h time_horizon_years n (snd t)
      in (fst t # fst rest, snd rest))"

text \<open>
  Lines 374-405. \<open>not_defaulted\<close> is the selection \<open>[~default_occurred]\<close>; the test
  \<open>(~default_occurred).sum() > 0\<close> asks whether it is non-empty.
\<close>

definition buying_results ::
  "household \<Rightarrow> string \<Rightarrow> nat \<Rightarrow> nat \<Rightarrow> trial_outcome list \<Rightarrow> result_record" where
  "buying_results h name num_simulations time_horizon_years ts =
     (let not_defaulted = filter (\<lambda>t. \<not> default_occurred t) ts;
          some = (not_defaulted \<noteq> [])
      in \<lparr>res_household_id = household_id h,
          res_scenario = name,
          simulations = num_simulations,
          res_time_horizon_years = time_horizon_years,
          initial_monthly_cost =
            MeanMedian
              (if some then np_mean (map monthly_costs not_defaulted) else Some 0)
              (if some then np_median (map monthly_costs not_defaulted) else Some 0),
          final_monthly_cost =
            \<lparr>mean = (if some then np_mean (map monthly_costs not_defaulted) else Some 0),
             median = (if some then np_median (map monthly_costs not_defaulted) else Some 0),
             percentile_5 =
               (if some then np_percentile (map monthly_costs not_defaulted) 5 else Some 0),
             percentile_95 =
               (if some then np_percentile (map monthly_costs not_defaulted) 95 else Some 0)\<rparr>,
          total_cost_paid = summary_of (map total_paid ts),
          equity_built =
            \<lparr>mean = (if some then np_mean (map final_equity not_defaulted)
                     else np_mean (map final_equity ts)),
             median = (if some then np_median (map final_equity not_defaulted)
                       else np_median (map final_equity ts)),
             percentile_5 = np_percentile (map final_equity ts) 5,
             percentile_95 = np_percentile (map final_equity ts) 95\<rparr>,
          probability_affordable =
            fraction (length (filter (\<lambda>t. months_solvent t = time_horizon_years * 12) ts))
              num_simulations,
          probability_unaffordable = None,
          probability_default =
            Some (fraction (length (filter default_occurred ts)) num_simulations),
          probability_negative_equity =
            Some (fraction (length (filter (\<lambda>t. final_equity t < 0) ts)) num_simulations),
          mean_affordable_months = np_mean (map (\<lambda>t. real (months_solvent t)) ts)\<rparr>)"

datatype py_error = KeyError string

text \<open>
  Line 250, \<open>self.scenarios[scenario_name]\<close>, raises \<open>KeyError\<close> for a name that is not
  a key, before anything is drawn.
\<close>

definition simulate_buying ::
  "'s generator \<Rightarrow> simulator \<Rightarrow> household \<Rightarrow> string \<Rightarrow> nat \<Rightarrow> nat \<Rightarrow> 's
   \<Rightarrow> (py_error + result_record) \<times> 's" where
  "simulate_buying g cfg h name num_simulations time_horizon_years s =
     (case map_of scenarios name of
        None \<Rightarrow> (Inl (KeyError name), s)
      | Some p \<Rightarrow>
          (let run = buying_trials g cfg p (region_adj_of (region h)) h time_horizon_years
                       num_simulations s
           in (Inr (buying_results h name num_simulations time_horizon_years (fst run)),
               snd run)))"

section \<open>Dispatch and comparison\<close>

text \<open>Lines 428-431.\<close>

definition simulate_household ::
  "'s generator \<Rightarrow> simulator \<Rightarrow> household \<Rightarrow> string \<Rightarrow> nat \<Rightarrow> nat \<Rightarrow> 's
   \<Rightarrow> (py_error + result_record) \<times> 's" where
  "simulate_household g cfg h scenario num_simulations time_horizon_years s =
     (if scenario = ''Keep Renting''
      then (let r = simulate_renting g cfg h num_simulations time_horizon_years s
            in (Inr (fst r), snd r))
      else simulate_buying g cfg h scenario num_simulations time_horizon_years s)"

text \<open>
  Lines 450-456: one call per catalog key, in the dict's order, on the same generator.
  An exception in a call ends the comparison.
\<close>

fun compare_loop ::
  "'s generator \<Rightarrow> simulator \<Rightarrow> household \<Rightarrow> nat \<Rightarrow> nat \<Rightarrow> string list \<Rightarrow> 's
   \<Rightarrow> (py_error + (string \<times> result_record) list) \<times> 's" where
  "compare_loop g cfg h num_simulations time_horizon_years [] s = (Inr [], s)"
| "compare_loop g cfg h num_simulations time_horizon_years (name # names) s =
     (case simulate_household g cfg h name num_simulations time_horizon_years s of
        (Inl e, s1) \<Rightarrow> (Inl e, s1)
      | (Inr r, s1) \<Rightarrow>
          (case compare_loop g cfg h num_simulations time_horizon_years names s1 of
             (Inl e, s2) \<Rightarrow> (Inl e, s2)
           | (Inr rs, s2) \<Rightarrow> (Inr ((name, r) # rs), s2)))"

definition compare_scenarios ::
  "'s generator \<Rightarrow> simulator \<Rightarrow> household \<Rightarrow> nat \<Rightarrow> nat \<Rightarrow> 's
   \<Rightarrow> (py_error + (string \<times> result_record) list) \<times> 's" where
  "compare_scenarios g cfg h num_simulations time_horizon_years s =
     compare_loop g cfg h num_simulations time_horizon_years (map fst scenarios) s"

section \<open>Timeline projector (\<open>simulate_timeline\<close>)\<close>

text \<open>
  Row \<open>y\<close> of a trial holds the cells \<open>[sim, y]\<close> of the three arrays
  \<open>yearly_equity\<close>, \<open>yearly_costs\<close> and \<open>yearly_total_paid\<close>.
\<close>

record year_row =
  yearly_equity :: real
  yearly_costs :: real
  yearly_total_paid :: real

record timeline_rent_state =
  rent_t :: real
  income_t :: real
  cumulative_cost_t :: real

text \<open>Lines 503-516: one year of the renting branch, with the row it writes.\<close>

definition timeline_rent_year ::
  "'s generator \<Rightarrow> simulator \<Rightarrow> timeline_rent_state \<Rightarrow> 's \<Rightarrow> year_row \<times> timeline_rent_state \<times> 's"
  where
  "timeline_rent_year g cfg st s =
     (let rent_increase = fst (np_triangular g (3/100) (5/100) (10/100) s);
          s1 = snd (np_triangular g (3/100) (5/100) (10/100) s);
          r = rent_t st * (1 + rent_increase);
          income_change = fst (np_normal g (income_growth cfg) (8/100) s1);
          s2 = snd (np_normal g (income_growth cfg) (8/100) s1);
          inc = income_t st * (1 + income_change);
          cumulative_cost = cumulative_cost_t st + r * 12
      in (\<lparr>yearly_equity = 0, yearly_costs = r, yearly_total_paid = cumulative_cost\<rparr>,
          \<lparr>rent_t = r, income_t = inc, cumulative_cost_t = cumulative_cost\<rparr>, s2))"

fun timeline_rent_years ::
  "'s generator \<Rightarrow> simulator \<Rightarrow> nat \<Rightarrow> timeline_rent_state \<Rightarrow> 's \<Rightarrow> year_row list \<times> 's" where
  "timeline_rent_years g cfg 0 st s = ([], s)"
| "timeline_rent_years g cfg (Suc k) st s =
     (fst (timeline_rent_year g cfg st s)
        # fst (timeline_rent_years g cfg k (fst (snd (timeline_rent_year g cfg st s)))
                 (snd (snd (timeline_rent_year g cfg st s)))),
      snd (timeline_rent_years g cfg k (fst (snd (timeline_rent_year g cfg st s)))
             (snd (snd (timeline_rent_year g cfg st s)))))"

text \<open>Lines 494-516: a renting trial, year 0 first.\<close>

definition timeline_rent_trial ::
  "'s generator \<Rightarrow> simulator \<Rightarrow> household \<Rightarrow> nat \<Rightarrow> 's \<Rightarrow> year_row list \<times> 's" where
  "timeline_rent_trial g cfg h time_horizon_years s =
     (let later = timeline_rent_years g cfg time_horizon_years
                    \<lparr>rent_t = current_monthly_rent h, income_t = annual_income h,
                     cumulative_cost_t = 0\<rparr> s
      in (\<lparr>yearly_equity = 0, yearly_costs = current_monthly_rent h, yearly_total_paid = 0\<rparr>
            # fst later, snd later))"

record timeline_buy_state =
  home_value_t :: real
  loan_balance_t :: real
  income_bt :: real
  cumulative_cost_bt :: real
  monthly_insurance_t :: real

text \<open>
  Lines 584-588, the twelve payments of a year on the pair (loan balance, cumulative
  cost): every month amortises and pays, there is no affordability test.
\<close>

fun timeline_month_loop :: "nat \<Rightarrow> real \<Rightarrow> real \<Rightarrow> real \<Rightarrow> real \<times> real \<Rightarrow> real \<times> real" where
  "timeline_month_loop 0 monthly_mortgage rate tm acc = acc"
| "timeline_month_loop (Suc k) monthly_mortgage rate tm (balance, cumulative_cost) =
     (let interest_payment = balance * (rate / 12);
          principal_payment = monthly_mortgage - interest_payment
      in timeline_month_loop k monthly_mortgage rate tm
           (balance - principal_payment, cumulative_cost + tm))"

text \<open>Lines 564-595: one year of the buying branch, with the row it writes.\<close>

definition timeline_buy_year ::
  "'s generator \<Rightarrow> simulator \<Rightarrow> HousingScenarioParameters \<Rightarrow> real \<Rightarrow> real \<Rightarrow> timeline_buy_state
   \<Rightarrow> 's \<Rightarrow> year_row \<times> timeline_buy_state \<times> 's" where
  "timeline_buy_year g cfg p monthly_mortgage rate st s =
     (let income_change = fst (np_normal g (income_growth cfg) (8/100) s);
          s1 = snd (np_normal g (income_growth cfg) (8/100) s);
          inc = income_bt st * (1 + income_change);
          appreciation = fst (np_normal g (appreciation_mean p) (appreciation_std p) s1);
          s2 = snd (np_normal g (appreciation_mean p) (appreciation_std p) s1);
          home_value = home_value_t st * (1 + appreciation);
          insurance_mode = np_clip (insurance_increase cfg) (3/100) (12/100);
          insurance_incr = fst (np_triangular g (3/100) insurance_mode (12/100) s2);
          s3 = snd (np_triangular g (3/100) insurance_mode (12/100) s2);
          insurance = monthly_insurance_t st * (1 + insurance_incr);
          monthly_property_tax = (home_value * property_tax_rate p) / 12;
          monthly_maintenance = (home_value * maintenance_annual_pct p) / 12;
          tm = monthly_mortgage + monthly_property_tax + insurance + hoa_monthly p
               + monthly_maintenance;
          paid = timeline_month_loop 12 monthly_mortgage rate tm
                   (loan_balance_t st, cumulative_cost_bt st);
          equity = home_value - max 0 (fst paid)
      in (\<lparr>yearly_equity = equity, yearly_costs = tm, yearly_total_paid = snd paid\<rparr>,
          \<lparr>home_value_t = home_value, loan_balance_t = fst paid, income_bt = inc,
           cumulative_cost_bt = snd paid, monthly_insurance_t = insurance\<rparr>, s3))"

fun timeline_buy_years ::
  "'s generator \<Rightarrow> simulator \<Rightarrow> HousingScenarioParameters \<Rightarrow> nat \<Rightarrow> real \<Rightarrow> real
   \<Rightarrow> timeline_buy_state \<Rightarrow> 's \<Rightarrow> year_row list \<times> 's" where
  "timeline_buy_years g cfg p 0 monthly_mortgage rate st s = ([], s)"
| "timeline_buy_years g cfg p (Suc k) monthly_mortgage rate st s =
     (fst (timeline_buy_year g cfg p monthly_mortgage rate st s)
        # fst (timeline_buy_years g cfg p k monthly_mortgage rate
                 (fst (snd (timeline_buy_year g cfg p monthly_mortgage rate st s)))
                 (snd (snd (timeline_buy_year g cfg p monthly_mortgage rate st s)))),
      snd (timeline_buy_years g cfg p k monthly_mortgage rate
             (fst (snd (timeline_buy_year g cfg p monthly_mortgage rate st s)))
             (snd (snd (timeline_buy_year g cfg p monthly_mortgage rate st s)))))"

text \<open>Lines 534-595: a buying trial that passed the entry gate, year 0 first.\<close>

definition timeline_buy_path ::
  "'s generator \<Rightarrow> simulator \<Rightarrow> HousingScenarioParameters \<Rightarrow> region_adjustment \<Rightarrow> household
   \<Rightarrow> nat \<Rightarrow> entry \<Rightarrow> 's \<Rightarrow> year_row list \<times> 's" where
  "timeline_buy_path g cfg p adj h time_horizon_years e s =
     (let loan_amount = home_price e - down_payment e;
          rate = fst (draw_interest_rate g p h s);
          s1 = snd (draw_interest_rate g p h s);
          monthly_rate = rate / 12;
          monthly_mortgage = monthly_mortgage_of loan_amount monthly_rate;
          insurance = (hurricane_insurance_annual p * insurance_multiplier adj) / 12;
          cumulative_cost = down_payment e + closing_costs e;
          later = timeline_buy_years g cfg p time_horizon_years monthly_mortgage rate
                    \<lparr>home_value_t = home_price e, loan_balance_t = loan_amount,
                     income_bt = annual_income h, cumulative_cost_bt = cumulative_cost,
                     monthly_insurance_t = insurance\<rparr> s1
      in (\<lparr>yearly_equity = down_payment e,
           yearly_costs = monthly_mortgage + (home_price e * property_tax_rate p) / 12
                          + insurance + hoa_monthly p,
           yearly_total_paid = cumulative_cost\<rparr> # fst later, snd later))"

text \<open>Lines 520-595: a buying trial; a failed entry fills every year with one row.\<close>

definition timeline_buy_trial ::
  "'s generator \<Rightarrow> simulator \<Rightarrow> HousingScenarioParameters \<Rightarrow> region_adjustment \<Rightarrow> household
   \<Rightarrow> nat \<Rightarrow> 's \<Rightarrow> year_row list \<times> 's" where
  "timeline_buy_trial g cfg p adj h time_horizon_years s =
     (let drawn = draw_entry g p adj s
      in if savings h < down_payment (fst drawn) + closing_costs (fst drawn)
         then (replicate (time_horizon_years + 1)
                 \<lparr>yearly_equity = - min (savings h) (closing_costs (fst drawn)),
                  yearly_costs = 0,
                  yearly_total_paid = min (savings h) (closing_costs (fst drawn))\<rparr>,
               snd drawn)
         else timeline_buy_path g cfg p adj h time_horizon_years (fst drawn) (snd drawn))"

text \<open>Lines 492 and 518: the branch is chosen by the scenario name, in every trial.\<close>

definition timeline_trial ::
  "'s generator \<Rightarrow> simulator \<Rightarrow> HousingScenarioParameters \<Rightarrow> household \<Rightarrow> string \<Rightarrow> nat \<Rightarrow> 's
   \<Rightarrow> year_row list \<times> 's" where
  "timeline_trial g cfg p h name time_horizon_years s =
     (if name = ''Keep Renting''
      then timeline_rent_trial g cfg h time_horizon_years s
      else timeline_buy_trial g cfg p (region_adj_of (region h)) h time_horizon_years s)"

fun timeline_trials ::
  "'s generator \<Rightarrow> simulator \<Rightarrow> HousingScenarioParameters \<Rightarrow> household \<Rightarrow> string \<Rightarrow> nat \<Rightarrow> nat
   \<Rightarrow> 's \<Rightarrow> year_row list list \<times> 's" where
  "timeline_trials g cfg p h name time_horizon_years 0 s = ([], s)"
| "timeline_trials g cfg p h name time_horizon_years (Suc n) s =
     (let t = timeline_trial g cfg p h name time_horizon_years s;
          rest = timeline_trials g cfg p h name time_horizon_years n (snd t)
      in (fst t # fst rest, snd rest))"

text \<open>Lines 598-629: the percentile bands, year by year, over the trials.\<close>

record bands =
  pessimistic :: "real option list"
  expected :: "real option list"
  optimistic :: "real option list"

record timeline_result =
  tl_scenario :: string
  years :: "nat list"
  equity :: bands
  tl_monthly_costs :: bands
  cumulative_costs :: bands

definition column :: "(year_row \<Rightarrow> real) \<Rightarrow> year_row list list \<Rightarrow> nat \<Rightarrow> real list" where
  "column field trials y = map (\<lambda>rows. field (rows ! y)) trials"

definition timeline_results :: "string \<Rightarrow> nat \<Rightarrow> year_row list list \<Rightarrow> timeline_result" where
  "timeline_results name time_horizon_years trials =
     (let ys = [0 ..< time_horizon_years + 1];
          pct = (\<lambda>field q. map (\<lambda>y. np_percentile (column field trials y) q) ys)
      in \<lparr>tl_scenario = name,
          years = ys,
          equity = \<lparr>pessimistic = pct yearly_equity 5, expected = pct yearly_equity 50,
                    optimistic = pct yearly_equity 95\<rparr>,
          tl_monthly_costs = \<lparr>pessimistic = pct yearly_costs 95, expected = pct yearly_costs 50,
                              optimistic = pct yearly_costs 5\<rparr>,
          cumulative_costs = \<lparr>pessimistic = pct yearly_total_paid 95,
                              expected = pct yearly_total_paid 50,
                              optimistic = pct yearly_total_paid 5\<rparr>\<rparr>)"

definition simulate_timeline ::
  "'s generator \<Rightarrow> simulator \<Rightarrow> household \<Rightarrow> string \<Rightarrow> nat \<Rightarrow> nat \<Rightarrow> 's
   \<Rightarrow> (py_error + timeline_result) \<times> 's" where
  "simulate_timeline g cfg h name num_simulations time_horizon_years s =
     (case map_of scenarios name of
        None \<Rightarrow> (Inl (KeyError name), s)
      | Some p \<Rightarrow>
          (let run = timeline_trials g cfg p h name time_horizon_years num_simulations s
           in (Inr (timeline_results name time_horizon_years (fst run)), snd run)))"

section \<open>Construction (\<open>__init__\<close>)\<close>

text \<open>
  Line 53 seeds the process-wide generator, whatever its state was, and lines 56-60 store
  the configuration. The simulator's methods then run on that generator state, each call
  continuing where the one before it stopped.
\<close>

definition init ::
  "'s generator \<Rightarrow> int \<Rightarrow> real \<Rightarrow> real \<Rightarrow> real \<Rightarrow> real option \<Rightarrow> real option \<Rightarrow> 's
   \<Rightarrow> simulator \<times> 's" where
  "init g random_seed ig ii thr ar ir s =
     (\<lparr>income_growth = ig, insurance_increase = ii, affordability_threshold = thr,
       appreciation_rate = ar, interest_rate = ir\<rparr>,
      np_seed g random_seed)"

section \<open>The aggregation in the spec's words\<close>

text \<open>
  The spec's sentence on the buying aggregation, as definitions of their own, to be
  compared with what \<open>buying_results\<close> computes: mean and median over the non-defaulted
  subset, falling back to the full set if that subset is empty; the 5th and 95th
  percentile over the full trial set.
\<close>

definition non_defaulted_or_all :: "trial_outcome list \<Rightarrow> trial_outcome list" where
  "non_defaulted_or_all ts =
     (if filter (\<lambda>t. \<not> default_occurred t) ts = [] then ts
      else filter (\<lambda>t. \<not> default_occurred t) ts)"

definition spec_summary :: "(trial_outcome \<Rightarrow> real) \<Rightarrow> trial_outcome list \<Rightarrow> summary" where
  "spec_summary field ts =
     \<lparr>mean = np_mean (map field (non_defaulted_or_all ts)),
      median = np_median (map field (non_defaulted_or_all ts)),
      percentile_5 = np_percentile (map field ts) 5,
      percentile_95 = np_percentile (map field ts) 95\<rparr>"

section \<open>Conditions on the inputs\<close>



section \<open>Inputs for running the model\<close>






text \<open>
  A household with savings for the entry costs of a starter home and an income far too
  small for its monthly costs; a generator whose normal draws may lie up to 1000
  standard deviations from the mean; and two tapes for a starter-home trial. On
  \<open>default_tape\<close> the first year is unaffordable and the first default draw (the last
  entry) is below 0.3. On \<open>crash_tape\<close> (two years) the first year's appreciation draw
  is \<open>-41\<close>, which turns the home value and with it the monthly cost negative; the second
  year's appreciation draw is \<open>-1\<close>, and the first default draw is below 0.3.
\<close>

definition thin_household :: household where
  "thin_household =
     \<lparr>household_id = ''FL-0003'', annual_income = 1200, savings = 20000, credit_score = 750,
      current_monthly_rent = 50, debt_to_income_ratio = 3/10, region = ''Orlando''\<rparr>"

definition wild_generator :: "real list generator" where
  "wild_generator = tape_generator 1000 (\<lambda>seed. [])"

definition default_tape :: "real list" where
  "default_tape = [0, -8, 0, 0, 0, 0, 0]"

definition crash_tape :: "real list" where
  "crash_tape = [0, -8, 0, -513, 0, 0, 0, -13, 0, 0, 0]"

section \<open>Shared lemmas\<close>

subsection \<open>Running the tape generator\<close>

lemma tape_draws:
  "np_uniform (tape_generator z f) lo hi (x # xs) = (lo + (hi - lo) * unit_of x, xs @ [x])"
  "np_normal (tape_generator z f) mu sd (x # xs) = (mu + sd * bounded_by z x, xs @ [x])"
  "np_triangular (tape_generator z f) l m r (x # xs) = (l + (r - l) * unit_of x, xs @ [x])"
  "np_random (tape_generator z f) (x # xs) = (unit_of x, xs @ [x])"
  "np_seed (tape_generator z f) n = f n"
  by (simp_all add: tape_generator_def tape_next_def)

lemmas tape_simps = tape_draws unit_of_def bounded_by_def

lemma orlando: "region_adj_of ''Orlando'' = \<lparr>price_multiplier = 105/100, insurance_multiplier = 115/100\<rparr>"
  by (simp add: region_adj_of_def region_adjustments_def)




subsection \<open>The catalog\<close>

lemma scenario_keys:
  "map fst scenarios =
     [''Keep Renting'', ''Buy Starter Home'', ''Buy Standard Home'', ''Buy Premium Home'']"
  by (simp add: scenarios_def)

lemma map_of_scenarios_None:
  "name \<notin> set (map fst scenarios) \<Longrightarrow> map_of scenarios name = None"
  by (simp add: map_of_eq_None_iff)

lemma map_of_scenarios_Some:
  "name \<in> set (map fst scenarios) \<Longrightarrow> \<exists>p. map_of scenarios name = Some p"
  by (metis map_of_eq_None_iff not_Some_eq list.set_map)



subsection \<open>The mortgage payment\<close>

lemma power_gt_one: "0 < (r::real) \<Longrightarrow> 1 < (1 + r) ^ 360"
  by (simp add: one_less_power)

lemma monthly_mortgage_bounds:
  assumes L: "0 \<le> L" and r: "0 < r"
  shows "0 \<le> monthly_mortgage_of L r" and "monthly_mortgage_of L r \<le> L * r + L / 360"
proof -
  let ?P = "(1 + r) ^ 360"
  have bern: "1 + 360 * r \<le> ?P"
    using Bernoulli_inequality[of r 360] r by simp
  have P1: "0 < ?P - 1" using bern r by linarith
  have eq: "monthly_mortgage_of L r = L * (r * ?P) / (?P - 1)"
    using r by (simp add: monthly_mortgage_of_def)
  have Ppos: "0 < ?P" using P1 by linarith
  show "0 \<le> monthly_mortgage_of L r"
    unfolding eq using L r P1 Ppos by (intro divide_nonneg_pos mult_nonneg_nonneg) simp_all
  have "L * (r * ?P) \<le> (L * r + L / 360) * (?P - 1)"
  proof -
    have "(L * r + L / 360) * (?P - 1) - L * (r * ?P) = (L / 360) * (?P - 1 - 360 * r)"
      by (simp add: algebra_simps)
    moreover have "0 \<le> (L / 360) * (?P - 1 - 360 * r)"
      using L bern by (intro mult_nonneg_nonneg) simp_all
    ultimately show ?thesis by linarith
  qed
  then show "monthly_mortgage_of L r \<le> L * r + L / 360"
    unfolding eq using P1 by (simp add: pos_divide_le_eq)
qed

subsection \<open>The month loops\<close>

lemma rent_month_loop_unaffordable:
  "\<not> ratio_le r mi (35/100) \<Longrightarrow> rent_month_loop k r mi acc = acc"
  by (cases k; cases acc) simp_all

lemma renting_year_months:
  "months_affordable (fst (snd (renting_year g cfg st s))) =
     months_affordable st + (if fst (renting_year g cfg st s) then 12 else 0)"
  by (simp add: renting_year_def Let_def rent_month_loop_unaffordable
           del: rent_month_loop.simps)

lemma buy_month_loop_months:
  "months_affordable_b (fst (buy_month_loop g cfg k mm rate tm mi st s)) =
     months_affordable_b st + (if ratio_le tm mi (affordability_threshold cfg) then k else 0)"
  by (induction k arbitrary: st s) (simp_all add: Let_def)





lemma buy_month_loop_defaults_at_once:
  assumes "\<not> ratio_le tm mi (affordability_threshold cfg)" and "fst (np_random g s) < 3/10"
  shows "buy_month_loop g cfg 12 mm rate tm mi st s = (st\<lparr>default_flag := True\<rparr>, snd (np_random g s))"
proof -
  have twelve: "(12::nat) = Suc 11" by simp
  show ?thesis
    unfolding twelve by (simp only: buy_month_loop.simps assms if_False if_True)
qed

lemma timeline_month_loop_cost:
  "snd (timeline_month_loop k mm rate tm (bal, cum)) = cum + real k * tm"
  by (induction k arbitrary: bal cum) (simp_all add: Let_def algebra_simps)

subsection \<open>Signs of the draws\<close>





subsection \<open>Three starter-home trials\<close>



lemma default_tape_trial:
  "default_occurred (fst (buying_trial example_generator default_simulator buy_starter
      (region_adj_of ''Orlando'') thin_household 1 default_tape)) \<and>
   0 < monthly_costs (fst (buying_trial example_generator default_simulator buy_starter
      (region_adj_of ''Orlando'') thin_household 1 default_tape))"
proof -
  let ?M = "monthly_mortgage_of 199500 (1/400)"
  have M: "0 \<le> ?M"
    using monthly_mortgage_bounds(1)[of 199500 "1/400"] by simp
  show ?thesis
    using M
    by (simp add: buying_trial_def draw_entry_def failed_entry_def Let_def
        buying_path_def path_outcome_def buy_year_def draw_interest_rate_def np_clip_def
        example_generator_def default_tape_def tape_simps orlando buy_starter_def
        thin_household_def default_simulator_def
        buy_month_loop_defaults_at_once ratio_le_def del: buy_month_loop.simps)
qed

section \<open>Aggregation of a buying run\<close>





text \<open>
  The fallback differs as well: in a one-trial run whose trial ends in a default draw
  the reported mean monthly cost is 0, while the mean over the full trial set is the
  positive monthly cost of that trial.
\<close>

lemma monthly_cost_mean_zero_when_all_defaulted:
  "mean (final_monthly_cost
      (buying_results thin_household ''Buy Starter Home'' 1 1
         (fst (buying_trials example_generator default_simulator buy_starter
                 (region_adj_of ''Orlando'') thin_household 1 1 default_tape)))) = Some 0 \<and>
   mean (spec_summary monthly_costs
         (fst (buying_trials example_generator default_simulator buy_starter
                 (region_adj_of ''Orlando'') thin_household 1 1 default_tape))) \<noteq> Some 0"
proof -
  define t where "t = fst (buying_trial example_generator default_simulator buy_starter
      (region_adj_of ''Orlando'') thin_household 1 default_tape)"
  have t: "default_occurred t" "0 < monthly_costs t"
    using default_tape_trial by (simp_all add: t_def)
  have ts: "fst (buying_trials example_generator default_simulator buy_starter
                 (region_adj_of ''Orlando'') thin_household 1 1 default_tape) = [t]"
    by (simp add: buying_trials.simps(2)[of _ _ _ _ _ _ 0, folded One_nat_def] Let_def t_def
          del: One_nat_def)
  show ?thesis
    unfolding ts using t
    by (simp add: buying_results_def spec_summary_def non_defaulted_or_all_def np_mean_def Let_def)
qed



section \<open>The entry gate\<close>

text \<open>
  C2. A buying trial whose drawn, region-scaled price makes down payment plus closing
  costs exceed the savings ends at once: the default flag is set, the equity is
  \<open>- min savings closing_costs\<close>, the months solvent are 0, the total paid is
  \<open>min savings closing_costs\<close>, and the generator is left as the price draw left it, so
  no year or month was stepped.
\<close>

theorem failed_entry_terminates_trial:
  assumes "savings h < down_payment (fst (draw_entry g p adj s))
                       + closing_costs (fst (draw_entry g p adj s))"
  shows "buying_trial g cfg p adj h H s =
           (\<lparr>final_equity = - min (savings h) (closing_costs (fst (draw_entry g p adj s))),
             monthly_costs = 0,
             total_paid = min (savings h) (closing_costs (fst (draw_entry g p adj s))),
             default_occurred = True,
             months_solvent = 0\<rparr>,
            snd (np_uniform g (home_price_min p) (home_price_max p) s))"
  using assms
  by (simp add: buying_trial_def failed_entry_def failed_entry_outcome_def Let_def
        draw_entry_def min_def)

theorem failed_entry_terminates_trial_witness:
  "savings example_household
     < down_payment (fst (draw_entry example_generator buy_starter (region_adj_of ''Orlando'')
                            [0, 1/2, 0, -5]))
       + closing_costs (fst (draw_entry example_generator buy_starter (region_adj_of ''Orlando'')
                               [0, 1/2, 0, -5])) \<and>
   buying_trial example_generator default_simulator buy_starter (region_adj_of ''Orlando'')
     example_household 10 [0, 1/2, 0, -5] =
     (\<lparr>final_equity = - 5000, monthly_costs = 0, total_paid = 5000,
       default_occurred = True, months_solvent = 0\<rparr>, [1/2, 0, -5, 0])"
proof -
  have gate: "savings example_household
     < down_payment (fst (draw_entry example_generator buy_starter (region_adj_of ''Orlando'')
                            [0, 1/2, 0, -5]))
       + closing_costs (fst (draw_entry example_generator buy_starter (region_adj_of ''Orlando'')
                               [0, 1/2, 0, -5]))"
    by (simp add: draw_entry_def Let_def example_generator_def tape_simps example_household_def
          buy_starter_def orlando)
  show ?thesis
    using gate failed_entry_terminates_trial[OF gate, of default_simulator 10]
    by (simp add: draw_entry_def Let_def example_generator_def tape_simps example_household_def
          buy_starter_def orlando)
qed

section \<open>Determinism\<close>





section \<open>Equity of a defaulted trial\<close>







section \<open>Timeline continuity\<close>









text \<open>
  The condition on the appreciation draws is needed for the buying branch: on
  \<open>crash_tape\<close> the cumulative cost of year 1 is below that of year 0.
\<close>

lemma timeline_cumulative_cost_can_fall:
  "\<not> sorted (map yearly_total_paid
       (fst (timeline_trial wild_generator default_simulator buy_starter thin_household
               ''Buy Starter Home'' 1 crash_tape)))"
proof -
  let ?M = "monthly_mortgage_of 199500 (1/400)"
  have M: "?M \<le> 199500 * (1/400) + 199500 / 360"
    using monthly_mortgage_bounds(2)[of 199500 "1/400"] by simp
  show ?thesis
    using M
    by (simp add: timeline_trial_def timeline_buy_trial_def timeline_buy_path_def
        timeline_buy_year_def draw_entry_def draw_interest_rate_def np_clip_def Let_def
        wild_generator_def crash_tape_def tape_simps thin_household_def orlando buy_starter_def
        default_simulator_def timeline_month_loop_cost del: timeline_month_loop.simps)
qed

section \<open>Probabilities of a renting run\<close>

lemma renting_years_months_le:
  "months_affordable (fst (renting_years g cfg k st s)) \<le> months_affordable st + 12 * k"
proof (induction k arbitrary: st s)
  case 0
  show ?case by simp
next
  case (Suc k)
  show ?case
  proof (cases "fst (renting_year g cfg st s)")
    case True
    then show ?thesis
      using Suc.IH[of "fst (snd (renting_year g cfg st s))" "snd (snd (renting_year g cfg st s))"]
      by (simp add: renting_year_months)
  next
    case False
    then show ?thesis by (simp add: renting_year_months)
  qed
qed

lemma renting_trial_months_le:
  "months_affordable (fst (renting_trial g cfg h H s)) \<le> H * 12"
  using renting_years_months_le
    [of g cfg H "\<lparr>rent = current_monthly_rent h, total_cost = 0, months_affordable = 0,
        income = annual_income h\<rparr>" s]
  by (simp add: renting_trial_def mult.commute)

lemma renting_trials_length:
  "length (fst (renting_trials g cfg h H n s)) = n"
  by (induction n arbitrary: s) (simp_all add: Let_def)

lemma renting_trials_months_le:
  "t \<in> set (fst (renting_trials g cfg h H n s)) \<Longrightarrow> months_affordable t \<le> H * 12"
proof (induction n arbitrary: s)
  case 0
  then show ?case by simp
next
  case (Suc n)
  from Suc.prems show ?case
    using renting_trial_months_le[of g cfg h H s] Suc.IH
    by (auto simp: Let_def)
qed

lemma count_partition:
  "\<forall>m \<in> set ms. m \<le> (c::nat) \<Longrightarrow>
   length (filter (\<lambda>m. m = c) ms) + length (filter (\<lambda>m. m < c) ms) = length ms"
  by (induction ms) auto

text \<open>
  C6. A renting run with a positive trial count reports \<open>probability_affordable\<close> and
  \<open>probability_unaffordable\<close> that sum to 1, for every horizon, household, configuration
  and generator: no trial counts more than \<open>H * 12\<close> solvent months
  (\<open>renting_trials_months_le\<close>), so the trials with exactly \<open>H * 12\<close> months and those
  with fewer are all the trials.
\<close>

theorem renting_probabilities_sum_to_one:
  assumes "0 < N"
  shows "\<exists>a b. probability_affordable (fst (simulate_renting g cfg h N H s)) = Some a \<and>
               probability_unaffordable (fst (simulate_renting g cfg h N H s)) = Some (Some b) \<and>
               a + b = 1"
proof -
  let ?ms = "map months_affordable (fst (renting_trials g cfg h H N s))"
  have len: "length ?ms = N" by (simp add: renting_trials_length)
  have "\<forall>m \<in> set ?ms. m \<le> H * 12" using renting_trials_months_le by fastforce
  from count_partition[OF this]
  have part: "length (filter (\<lambda>m. m = H * 12) ?ms) + length (filter (\<lambda>m. m < H * 12) ?ms) = N"
    using len by simp
  have "real (length (filter (\<lambda>m. m = H * 12) ?ms)) / real N
        + real (length (filter (\<lambda>m. m < H * 12) ?ms)) / real N = 1"
    using assms part
    by (simp add: add_divide_distrib[symmetric] del: length_filter_conv_card flip: of_nat_add)
  then show ?thesis
    using assms by (simp add: simulate_renting_def renting_results_def fraction_def Let_def)
qed

theorem renting_probabilities_sum_to_one_witness:
  "(0::nat) < 2 \<and>
   (\<exists>a b. probability_affordable
            (fst (simulate_renting example_generator default_simulator example_household 2 1
                    [0, 1/2, 0, -5])) = Some a \<and>
          probability_unaffordable
            (fst (simulate_renting example_generator default_simulator example_household 2 1
                    [0, 1/2, 0, -5])) = Some (Some b) \<and>
          a + b = 1)"
  using renting_probabilities_sum_to_one
    [of 2 example_generator default_simulator example_household 1 "[0, 1/2, 0, -5]"]
  by simp

section \<open>Dispatch by scenario name\<close>

text \<open>
  C7. A scenario name that is not a key of the catalog makes \<open>simulate_household\<close>
  raise \<open>KeyError\<close>: no result record, and the generator untouched. The name
  \<open>Keep Renting\<close> goes to the renting simulator; every other key goes to the buying
  simulator, which returns a result record. The keys are the four names the spec lists.
\<close>

theorem scenario_dispatch:
  "(name \<notin> set (map fst scenarios) \<longrightarrow>
      simulate_household g cfg h name N H s = (Inl (KeyError name), s)) \<and>
   (name = ''Keep Renting'' \<longrightarrow>
      simulate_household g cfg h name N H s =
        (Inr (fst (simulate_renting g cfg h N H s)), snd (simulate_renting g cfg h N H s))) \<and>
   (name \<in> set (map fst scenarios) \<and> name \<noteq> ''Keep Renting'' \<longrightarrow>
      simulate_household g cfg h name N H s = simulate_buying g cfg h name N H s \<and>
      (\<exists>r. fst (simulate_buying g cfg h name N H s) = Inr r)) \<and>
   map fst scenarios =
     [''Keep Renting'', ''Buy Starter Home'', ''Buy Standard Home'', ''Buy Premium Home'']"
proof (intro conjI impI)
  assume out: "name \<notin> set (map fst scenarios)"
  then have "name \<noteq> ''Keep Renting''" by (auto simp: scenarios_def)
  then show "simulate_household g cfg h name N H s = (Inl (KeyError name), s)"
    using map_of_scenarios_None[OF out]
    by (simp add: simulate_household_def simulate_buying_def)
next
  assume "name = ''Keep Renting''"
  then show "simulate_household g cfg h name N H s =
        (Inr (fst (simulate_renting g cfg h N H s)), snd (simulate_renting g cfg h N H s))"
    by (simp add: simulate_household_def Let_def)
next
  assume a: "name \<in> set (map fst scenarios) \<and> name \<noteq> ''Keep Renting''"
  then show "simulate_household g cfg h name N H s = simulate_buying g cfg h name N H s"
    by (simp add: simulate_household_def)
  from a obtain p where "map_of scenarios name = Some p"
    using map_of_scenarios_Some by blast
  then show "\<exists>r. fst (simulate_buying g cfg h name N H s) = Inr r"
    by (simp add: simulate_buying_def Let_def)
next
  show "map fst scenarios =
     [''Keep Renting'', ''Buy Starter Home'', ''Buy Standard Home'', ''Buy Premium Home'']"
    by (rule scenario_keys)
qed

theorem scenario_dispatch_witness:
  "''Buy Mansion'' \<notin> set (map fst scenarios) \<and>
   simulate_household example_generator default_simulator example_household ''Buy Mansion'' 2 1
     [0, 1/2, 0, -5] = (Inl (KeyError ''Buy Mansion''), [0, 1/2, 0, -5]) \<and>
   ''Buy Starter Home'' \<in> set (map fst scenarios) \<and> ''Buy Starter Home'' \<noteq> ''Keep Renting'' \<and>
   (\<exists>r. fst (simulate_household example_generator default_simulator example_household
              ''Buy Starter Home'' 2 1 [0, 1/2, 0, -5]) = Inr r) \<and>
   simulate_household example_generator default_simulator example_household ''Keep Renting'' 2 1
     [0, 1/2, 0, -5] =
     (Inr (fst (simulate_renting example_generator default_simulator example_household 2 1
                 [0, 1/2, 0, -5])),
      snd (simulate_renting example_generator default_simulator example_household 2 1
             [0, 1/2, 0, -5]))"
proof -
  have out: "''Buy Mansion'' \<notin> set (map fst scenarios)"
    and inn: "''Buy Starter Home'' \<in> set (map fst scenarios)"
    and ne: "''Buy Starter Home'' \<noteq> ''Keep Renting''"
    by (simp_all add: scenarios_def)
  show ?thesis
    using out inn ne
      scenario_dispatch[of "''Buy Mansion''" example_generator default_simulator example_household 2 1
           "[0, 1/2, 0, -5]"]
      scenario_dispatch[of "''Buy Starter Home''" example_generator default_simulator example_household 2 1
           "[0, 1/2, 0, -5]"]
      scenario_dispatch[of "''Keep Renting''" example_generator default_simulator example_household 2 1
           "[0, 1/2, 0, -5]"]
    by simp
qed

section \<open>The unused overrides\<close>

lemma renting_year_cfg:
  "renting_year g (cfg\<lparr>appreciation_rate := a, interest_rate := i\<rparr>) st s = renting_year g cfg st s"
  by (simp add: renting_year_def)

lemma renting_years_cfg:
  "renting_years g (cfg\<lparr>appreciation_rate := a, interest_rate := i\<rparr>) k st s
     = renting_years g cfg k st s"
  by (induction k arbitrary: st s) (simp_all add: renting_year_cfg)

lemma renting_trials_cfg:
  "renting_trials g (cfg\<lparr>appreciation_rate := a, interest_rate := i\<rparr>) h H n s
     = renting_trials g cfg h H n s"
  by (induction n arbitrary: s) (simp_all add: renting_trial_def renting_years_cfg)

lemma simulate_renting_cfg:
  "simulate_renting g (cfg\<lparr>appreciation_rate := a, interest_rate := i\<rparr>) h N H s
     = simulate_renting g cfg h N H s"
  by (simp add: simulate_renting_def renting_trials_cfg)

lemma buy_month_loop_cfg:
  "buy_month_loop g (cfg\<lparr>appreciation_rate := a, interest_rate := i\<rparr>) k mm rate tm mi st s
     = buy_month_loop g cfg k mm rate tm mi st s"
  by (induction k arbitrary: st s) (simp_all add: Let_def)

lemma buy_year_cfg:
  "buy_year g (cfg\<lparr>appreciation_rate := a, interest_rate := i\<rparr>) p mm rate st s
     = buy_year g cfg p mm rate st s"
  by (simp add: buy_year_def buy_month_loop_cfg del: buy_month_loop.simps)

lemma buy_year_loop_cfg:
  "buy_year_loop g (cfg\<lparr>appreciation_rate := a, interest_rate := i\<rparr>) p k mm rate st s
     = buy_year_loop g cfg p k mm rate st s"
  by (induction k arbitrary: st s) (simp_all add: buy_year_cfg)

lemma buying_trial_cfg:
  "buying_trial g (cfg\<lparr>appreciation_rate := a, interest_rate := i\<rparr>) p adj h H s
     = buying_trial g cfg p adj h H s"
  by (simp add: buying_trial_def buying_path_def buy_year_loop_cfg Let_def)

lemma buying_trials_cfg:
  "buying_trials g (cfg\<lparr>appreciation_rate := a, interest_rate := i\<rparr>) p adj h H n s
     = buying_trials g cfg p adj h H n s"
  by (induction n arbitrary: s) (simp_all add: buying_trial_cfg)

lemma simulate_buying_cfg:
  "simulate_buying g (cfg\<lparr>appreciation_rate := a, interest_rate := i\<rparr>) h name N H s
     = simulate_buying g cfg h name N H s"
  by (simp add: simulate_buying_def buying_trials_cfg split: option.splits)

lemma simulate_household_cfg:
  "simulate_household g (cfg\<lparr>appreciation_rate := a, interest_rate := i\<rparr>) h name N H s
     = simulate_household g cfg h name N H s"
  by (simp add: simulate_household_def simulate_buying_cfg simulate_renting_cfg)

lemma compare_loop_cfg:
  "compare_loop g (cfg\<lparr>appreciation_rate := a, interest_rate := i\<rparr>) h N H names s
     = compare_loop g cfg h N H names s"
  by (induction names arbitrary: s)
     (simp_all add: simulate_household_cfg split: prod.splits sum.splits)

lemma timeline_rent_years_cfg:
  "timeline_rent_years g (cfg\<lparr>appreciation_rate := a, interest_rate := i\<rparr>) k st s
     = timeline_rent_years g cfg k st s"
  by (induction k arbitrary: st s) (simp_all add: timeline_rent_year_def)

lemma timeline_buy_years_cfg:
  "timeline_buy_years g (cfg\<lparr>appreciation_rate := a, interest_rate := i\<rparr>) p k mm rate st s
     = timeline_buy_years g cfg p k mm rate st s"
  by (induction k arbitrary: st s) (simp_all add: timeline_buy_year_def)

lemma timeline_trial_cfg:
  "timeline_trial g (cfg\<lparr>appreciation_rate := a, interest_rate := i\<rparr>) p h name H s
     = timeline_trial g cfg p h name H s"
  by (simp add: timeline_trial_def timeline_rent_trial_def timeline_buy_trial_def
        timeline_buy_path_def timeline_rent_years_cfg timeline_buy_years_cfg Let_def)

lemma timeline_trials_cfg:
  "timeline_trials g (cfg\<lparr>appreciation_rate := a, interest_rate := i\<rparr>) p h name H n s
     = timeline_trials g cfg p h name H n s"
  by (induction n arbitrary: s) (simp_all add: timeline_trial_cfg)

lemma simulate_timeline_cfg:
  "simulate_timeline g (cfg\<lparr>appreciation_rate := a, interest_rate := i\<rparr>) h name N H s
     = simulate_timeline g cfg h name N H s"
  by (simp add: simulate_timeline_def timeline_trials_cfg split: option.splits)

lemma init_overrides:
  "init g seed ig ii thr ar ir s0 =
     (fst (init g seed ig ii thr ar' ir' s1)\<lparr>appreciation_rate := ar, interest_rate := ir\<rparr>,
      snd (init g seed ig ii thr ar' ir' s1))"
  by (simp add: init_def)

text \<open>
  C8. Changing the \<open>appreciation_rate\<close> and \<open>interest_rate\<close> overrides of a
  configuration, and nothing else, changes neither the result nor the generator state
  left behind by any simulation method (renting, buying, dispatch, comparison,
  timeline), from every generator state. Two simulators constructed with the same seed
  and the same other arguments are such a pair: their configurations differ in the two
  overrides only and their generator states are equal.
\<close>

theorem overrides_never_consulted:
  "simulate_renting g (cfg\<lparr>appreciation_rate := ar, interest_rate := ir\<rparr>) h N H s
     = simulate_renting g cfg h N H s \<and>
   simulate_buying g (cfg\<lparr>appreciation_rate := ar, interest_rate := ir\<rparr>) h name N H s
     = simulate_buying g cfg h name N H s \<and>
   simulate_household g (cfg\<lparr>appreciation_rate := ar, interest_rate := ir\<rparr>) h name N H s
     = simulate_household g cfg h name N H s \<and>
   compare_scenarios g (cfg\<lparr>appreciation_rate := ar, interest_rate := ir\<rparr>) h N H s
     = compare_scenarios g cfg h N H s \<and>
   simulate_timeline g (cfg\<lparr>appreciation_rate := ar, interest_rate := ir\<rparr>) h name N H s
     = simulate_timeline g cfg h name N H s \<and>
   init g seed ig ii thr ar ir s0 =
     (fst (init g seed ig ii thr ar' ir' s1)\<lparr>appreciation_rate := ar, interest_rate := ir\<rparr>,
      snd (init g seed ig ii thr ar' ir' s1))"
  by (simp only: simulate_renting_cfg simulate_buying_cfg simulate_household_cfg
        compare_scenarios_def compare_loop_cfg simulate_timeline_cfg
        init_overrides[of g seed ig ii thr ar ir s0 ar' ir' s1] simp_thms)

section \<open>Months solvent\<close>

lemma renting_years_months_dvd:
  "12 dvd months_affordable st \<Longrightarrow> 12 dvd months_affordable (fst (renting_years g cfg k st s))"
proof (induction k arbitrary: st s)
  case 0
  then show ?case by simp
next
  case (Suc k)
  show ?case
  proof (cases "fst (renting_year g cfg st s)")
    case True
    have "12 dvd months_affordable (fst (snd (renting_year g cfg st s)))"
      using True Suc.prems by (simp add: renting_year_months)
    from Suc.IH[OF this] True show ?thesis by simp
  next
    case False
    then show ?thesis using Suc.prems by (simp add: renting_year_months)
  qed
qed

lemma buy_year_months:
  "months_affordable_b (fst (buy_year g cfg p mm rate st s)) = months_affordable_b st \<or>
   months_affordable_b (fst (buy_year g cfg p mm rate st s)) = months_affordable_b st + 12"
  by (simp add: buy_year_def Let_def buy_month_loop_months del: buy_month_loop.simps)

lemma buy_year_loop_months_dvd:
  "12 dvd months_affordable_b st \<Longrightarrow>
   12 dvd months_affordable_b (fst (buy_year_loop g cfg p k mm rate st s))"
proof (induction k arbitrary: st s)
  case 0
  then show ?case by simp
next
  case (Suc k)
  have step: "12 dvd months_affordable_b (fst (buy_year g cfg p mm rate st s))"
    using buy_year_months[of g cfg p mm rate st s] Suc.prems by auto
  show ?case using step Suc.IH[OF step] by simp
qed

text \<open>
  C9. The months-solvent count of every renting trial and of every buying trial is a
  multiple of 12. A renting year adds 12 months when the loop goes on and none when it
  breaks; a buying year adds 12 months or none; a failed entry records 0.
\<close>

theorem months_solvent_multiple_of_12:
  "12 dvd months_affordable (fst (renting_trial g cfg h H s)) \<and>
   12 dvd months_solvent (fst (buying_trial g cfg p adj h H s)) \<and>
   months_affordable (fst (snd (renting_year g cfg rst s))) =
     months_affordable rst + (if fst (renting_year g cfg rst s) then 12 else 0) \<and>
   (months_affordable_b (fst (buy_year g cfg p mm rate bst s)) = months_affordable_b bst \<or>
    months_affordable_b (fst (buy_year g cfg p mm rate bst s)) = months_affordable_b bst + 12)"
proof (intro conjI)
  show "12 dvd months_affordable (fst (renting_trial g cfg h H s))"
    by (simp add: renting_trial_def renting_years_months_dvd)
  show "12 dvd months_solvent (fst (buying_trial g cfg p adj h H s))"
    by (simp add: buying_trial_def Let_def failed_entry_outcome_def path_outcome_def
          buying_path_def buy_year_loop_months_dvd)
  show "months_affordable (fst (snd (renting_year g cfg rst s))) =
     months_affordable rst + (if fst (renting_year g cfg rst s) then 12 else 0)"
    by (rule renting_year_months)
  show "months_affordable_b (fst (buy_year g cfg p mm rate bst s)) = months_affordable_b bst \<or>
    months_affordable_b (fst (buy_year g cfg p mm rate bst s)) = months_affordable_b bst + 12"
    by (rule buy_year_months)
qed

section \<open>The mortgage rate\<close>

text \<open>
  C10. The buying simulator (\<open>buying_path\<close>) and the timeline projector
  (\<open>timeline_buy_path\<close>) both take the rate from \<open>draw_interest_rate\<close> and the payment
  from \<open>monthly_mortgage_of\<close> at a twelfth of it. Whatever is drawn, the rate lies in
  \<open>[0.03, 0.10]\<close>, the monthly rate is positive, the denominator \<open>(1 + r)^360 - 1\<close> is
  not zero, and the payment is the amortisation formula: the linear branch is not taken.
  So the payment inside the first monthly cost of a buying trial and inside the year-0
  monthly cost of a timeline trial is the amortised one.
\<close>

theorem clipped_rate_amortizes:
  "3/100 \<le> fst (draw_interest_rate g p h s) \<and>
   fst (draw_interest_rate g p h s) \<le> 10/100 \<and>
   0 < fst (draw_interest_rate g p h s) / 12 \<and>
   (1 + fst (draw_interest_rate g p h s) / 12) ^ 360 - 1 \<noteq> 0 \<and>
   monthly_mortgage_of loan (fst (draw_interest_rate g p h s) / 12) =
     loan * (fst (draw_interest_rate g p h s) / 12
             * (1 + fst (draw_interest_rate g p h s) / 12) ^ 360)
       / ((1 + fst (draw_interest_rate g p h s) / 12) ^ 360 - 1) \<and>
   total_monthly (fst (buying_path g cfg p adj h 0 e s)) =
     (home_price e - down_payment e)
       * (fst (draw_interest_rate g p h s) / 12
          * (1 + fst (draw_interest_rate g p h s) / 12) ^ 360)
       / ((1 + fst (draw_interest_rate g p h s) / 12) ^ 360 - 1)
     + home_price e * property_tax_rate p / 12
     + hurricane_insurance_annual p * insurance_multiplier adj / 12
     + hoa_monthly p + home_price e * maintenance_annual_pct p / 12 \<and>
   yearly_costs (fst (timeline_buy_path g cfg p adj h H e s) ! 0) =
     (home_price e - down_payment e)
       * (fst (draw_interest_rate g p h s) / 12
          * (1 + fst (draw_interest_rate g p h s) / 12) ^ 360)
       / ((1 + fst (draw_interest_rate g p h s) / 12) ^ 360 - 1)
     + home_price e * property_tax_rate p / 12
     + hurricane_insurance_annual p * insurance_multiplier adj / 12
     + hoa_monthly p"
proof -
  let ?rate = "fst (draw_interest_rate g p h s)"
  have lo: "3/100 \<le> ?rate" and hi: "?rate \<le> 10/100"
    by (simp_all add: draw_interest_rate_def Let_def np_clip_def)
  have pos: "0 < ?rate / 12" using lo by simp
  have "1 < (1 + ?rate / 12) ^ 360" using pos by (rule power_gt_one)
  then have nz: "(1 + ?rate / 12) ^ 360 - 1 \<noteq> 0" by simp
  have pay: "monthly_mortgage_of L (?rate / 12) =
     L * (?rate / 12 * (1 + ?rate / 12) ^ 360) / ((1 + ?rate / 12) ^ 360 - 1)" for L
    using pos by (simp add: monthly_mortgage_of_def)
  have buy: "total_monthly (fst (buying_path g cfg p adj h 0 e s)) =
     monthly_mortgage_of (home_price e - down_payment e) (?rate / 12)
     + home_price e * property_tax_rate p / 12
     + hurricane_insurance_annual p * insurance_multiplier adj / 12
     + hoa_monthly p + home_price e * maintenance_annual_pct p / 12"
    by (simp add: buying_path_def Let_def)
  have tl: "yearly_costs (fst (timeline_buy_path g cfg p adj h H e s) ! 0) =
     monthly_mortgage_of (home_price e - down_payment e) (?rate / 12)
     + home_price e * property_tax_rate p / 12
     + hurricane_insurance_annual p * insurance_multiplier adj / 12
     + hoa_monthly p"
    by (simp add: timeline_buy_path_def Let_def)
  show ?thesis
    unfolding buy tl pay using lo hi pos nz by simp
qed

end
